theory Spec2Isabelle
  imports Main "HOL-Library.Multiset"
begin

section \<open>Failures\<close>

text \<open>
  The ways a call of the plugin's functions can end without a value: a \<open>TypeError\<close>
  (reading \<open>.length\<close> of \<open>undefined\<close>), a \<open>SyntaxError\<close> (\<open>new RegExp\<close> on a
  source that is no pattern), and \<open>NoReturn\<close> (a \<open>while (match)\<close> loop whose
  pattern keeps matching the empty string at the same \<open>lastIndex\<close>).
\<close>

datatype failure = TypeError | SyntaxError | NoReturn

section \<open>JavaScript strings\<close>

text \<open>
  A string is the list of its code units, here the 8-bit characters of \<open>string\<close>:
  the patterns of the catalog tell apart ASCII characters only. \<open>charAt\<close> out of
  range is the empty string.
\<close>

definition charAt :: "string \<Rightarrow> nat \<Rightarrow> string" where
  "charAt s i = (if i < length s then [s ! i] else [])"

text \<open>\<open>s.substring(a, b)\<close>: both ends are clamped to the length and swapped when \<open>a > b\<close>.\<close>

definition substring :: "string \<Rightarrow> nat \<Rightarrow> nat \<Rightarrow> string" where
  "substring s a b =
     (let a' = min a (length s); b' = min b (length s);
          lo = min a' b'; hi = max a' b'
      in take (hi - lo) (drop lo s))"

text \<open>\<open>s.indexOf(pat)\<close>, \<open>None\<close> for \<open>-1\<close>.\<close>

fun indexOf :: "string \<Rightarrow> string \<Rightarrow> nat option" where
  "indexOf [] pat = (if pat = [] then Some 0 else None)"
| "indexOf (c # cs) pat =
     (if take (length pat) (c # cs) = pat then Some 0
      else map_option Suc (indexOf cs pat))"

text \<open>
  The replacement text of \<open>String.prototype.replace\<close> for a string pattern (no
  captures): \<open>$$\<close> is a dollar, \<open>$&\<close> the matched text, \<open>$`\<close> the text before the
  match, \<open>$'\<close> the text after it; any other character stands for itself.
\<close>

fun getSubstitution :: "string \<Rightarrow> string \<Rightarrow> string \<Rightarrow> string \<Rightarrow> string" where
  "getSubstitution matched preceding following (c # d # cs) =
     (if c = CHR ''$'' \<and> d = CHR ''$'' then CHR ''$'' # getSubstitution matched preceding following cs
      else if c = CHR ''$'' \<and> d = CHR ''&'' then matched @ getSubstitution matched preceding following cs
      else if c = CHR ''$'' \<and> d = CHR 0x60 then preceding @ getSubstitution matched preceding following cs
      else if c = CHR ''$'' \<and> d = CHR 0x27 then following @ getSubstitution matched preceding following cs
      else c # getSubstitution matched preceding following (d # cs))"
| "getSubstitution matched preceding following cs = cs"

text \<open>\<open>s.includes(pat)\<close>.\<close>

definition includesStr :: "string \<Rightarrow> string \<Rightarrow> bool" where
  "includesStr s pat \<longleftrightarrow> indexOf s pat \<noteq> None"

text \<open>\<open>s.replace(pat, repl)\<close> with a string pattern: the first occurrence only.\<close>

definition replaceStr :: "string \<Rightarrow> string \<Rightarrow> string \<Rightarrow> string" where
  "replaceStr s pat repl =
     (case indexOf s pat of
        None \<Rightarrow> s
      | Some p \<Rightarrow>
          let preceding = take p s; following = drop (p + length pat) s
          in preceding @ getSubstitution pat preceding following repl @ following)"

section \<open>Regular expressions\<close>

text \<open>
  The fragment of the pattern language that \<open>humanTimeFormatRegex\<close> and the patterns
  derived from it are written in: characters, \<open>\d\<close>, escaped syntax characters,
  classes of characters and ranges, groups, alternatives, \<open>?\<close> and \<open>{n}\<close>.
\<close>

datatype re =
    Chr char
  | Digit
  | Cls "(char \<times> char) list"
  | Eps
  | Cat re re
  | Alt re re
  | Opt re

text \<open>\<open>r{n}\<close> is \<open>n\<close> copies of \<open>r\<close> in a row.\<close>

definition times :: "nat \<Rightarrow> re \<Rightarrow> re" where
  "times n r = foldr Cat (replicate n r) Eps"

definition bsl :: char where
  "bsl = CHR 0x5C"

definition inRange :: "char \<Rightarrow> char \<times> char \<Rightarrow> bool" where
  "inRange c r \<longleftrightarrow> (of_char (fst r) :: nat) \<le> of_char c \<and> (of_char c :: nat) \<le> of_char (snd r)"

definition isDigit :: "char \<Rightarrow> bool" where
  "isDigit c \<longleftrightarrow> inRange c (CHR ''0'', CHR ''9'')"

text \<open>
  A backtracking matcher: \<open>rmatch r s\<close> lists what is left of \<open>s\<close> after each way
  \<open>r\<close> matches a prefix of it, in the order the engine tries them (the first
  alternative first, an optional part present before absent). An optional part that
  consumed nothing is not tried, as in the language's own repeat rule.
\<close>

fun rmatch :: "re \<Rightarrow> string \<Rightarrow> string list" where
  "rmatch (Chr c) s = (case s of [] \<Rightarrow> [] | x # xs \<Rightarrow> if x = c then [xs] else [])"
| "rmatch Digit s = (case s of [] \<Rightarrow> [] | x # xs \<Rightarrow> if isDigit x then [xs] else [])"
| "rmatch (Cls rs) s =
     (case s of [] \<Rightarrow> [] | x # xs \<Rightarrow> if list_ex (inRange x) rs then [xs] else [])"
| "rmatch Eps s = [s]"
| "rmatch (Cat r1 r2) s = concat (map (rmatch r2) (rmatch r1 s))"
| "rmatch (Alt r1 r2) s = rmatch r1 s @ rmatch r2 s"
| "rmatch (Opt r) s = filter (\<lambda>s'. length s' \<noteq> length s) (rmatch r s) @ [s]"

subsection \<open>new RegExp(source)\<close>

text \<open>
  The constructor reads the source from left to right, keeping one frame per open
  group: the alternatives finished so far and the terms of the current alternative,
  both latest first. The flag says whether the last term may still take a quantifier.
  A source outside the fragment above has no pattern here (\<open>None\<close>): that is a
  \<open>SyntaxError\<close> for an unbalanced or dangling construct, and for the rest (lazy
  quantifiers, anchors, \<open>.\<close>, \<open>*\<close>, \<open>+\<close>, other escapes, negated classes, lookaround, a
  brace that is no \<open>{n}\<close>) a source that neither the catalog nor a substitution of
  one catalog source in another produces.
\<close>

definition mkSeq :: "re list \<Rightarrow> re" where
  "mkSeq ts = foldl (\<lambda>acc t. Cat t acc) Eps ts"

definition closeFrame :: "re list \<Rightarrow> re list \<Rightarrow> re" where
  "closeFrame alts cur = foldl (\<lambda>acc a. Alt a acc) (mkSeq cur) alts"

fun classRanges :: "string \<Rightarrow> (char \<times> char) list option" where
  "classRanges (a # m # b # cs) =
     (if m = CHR ''-'' then
        (if (of_char a :: nat) \<le> of_char b then map_option ((#) (a, b)) (classRanges cs)
         else None)
      else map_option ((#) (a, a)) (classRanges (m # b # cs)))"
| "classRanges (a # cs) = map_option ((#) (a, a)) (classRanges cs)"
| "classRanges [] = Some []"

definition digitsValue :: "string \<Rightarrow> nat" where
  "digitsValue ds = foldl (\<lambda>n d. 10 * n + (of_char d - 48)) 0 ds"

definition syntaxChars :: string where
  "syntaxChars = ''^$.*+?()[]{}|/'' @ [bsl]"

function compile :: "bool \<Rightarrow> (re list \<times> re list) list \<Rightarrow> string \<Rightarrow> re option" where
  "compile q st [] = (case st of [(alts, cur)] \<Rightarrow> Some (closeFrame alts cur) | _ \<Rightarrow> None)"
| "compile q st (c # cs) =
     (case st of
        [] \<Rightarrow> None
      | (alts, cur) # up \<Rightarrow>
          if c = CHR ''('' then
            (if take 2 cs = ''?:'' then compile False (([], []) # st) (drop 2 cs)
             else if take 1 cs = ''?'' then None
             else compile False (([], []) # st) cs)
          else if c = CHR '')'' then
            (case up of
               [] \<Rightarrow> None
             | (alts', cur') # up' \<Rightarrow> compile True ((alts', closeFrame alts cur # cur') # up') cs)
          else if c = CHR ''|'' then compile False ((mkSeq cur # alts, []) # up) cs
          else if c = CHR ''?'' then
            (case cur of
               [] \<Rightarrow> None
             | t # ts \<Rightarrow> if q then compile False ((alts, Opt t # ts) # up) cs else None)
          else if c = CHR ''{'' then
            (case cur of
               [] \<Rightarrow> None
             | t # ts \<Rightarrow>
                 if q \<and> takeWhile isDigit cs \<noteq> [] \<and> take 1 (dropWhile isDigit cs) = ''}''
                 then compile False
                        ((alts, times (digitsValue (takeWhile isDigit cs)) t # ts) # up)
                        (drop 1 (dropWhile isDigit cs))
                 else None)
          else if c = CHR ''['' then
            (if take 1 cs \<noteq> ''^'' \<and> bsl \<notin> set (takeWhile (\<lambda>x. x \<noteq> CHR '']'') cs)
                \<and> take 1 (dropWhile (\<lambda>x. x \<noteq> CHR '']'') cs) = '']''
             then (case classRanges (takeWhile (\<lambda>x. x \<noteq> CHR '']'') cs) of
                     None \<Rightarrow> None
                   | Some rs \<Rightarrow>
                       compile True ((alts, Cls rs # cur) # up)
                         (drop 1 (dropWhile (\<lambda>x. x \<noteq> CHR '']'') cs)))
             else None)
          else if c = bsl then
            (case cs of
               [] \<Rightarrow> None
             | d # ds \<Rightarrow>
                 if d = CHR ''d'' then compile True ((alts, Digit # cur) # up) ds
                 else if d \<in> set syntaxChars then compile True ((alts, Chr d # cur) # up) ds
                 else None)
          else if c \<in> set ''^$.*+]}'' then None
          else compile True ((alts, Chr c # cur) # up) cs)"
  by pat_completeness auto
termination
  by (relation "measure (\<lambda>(q, st, s). length s)")
     (auto intro: le_imp_less_Suc length_dropWhile_le order.trans [OF diff_le_self])

text \<open>\<open>new RegExp(src, "g")\<close>.\<close>

definition newRegExp :: "string \<Rightarrow> re option" where
  "newRegExp src = compile False [([], [])] src"

text \<open>The length of the match the engine reports at the start of \<open>s\<close>, if any.\<close>

definition matchAt :: "re \<Rightarrow> string \<Rightarrow> nat option" where
  "matchAt r s = (case rmatch r s of [] \<Rightarrow> None | rest # _ \<Rightarrow> Some (length s - length rest))"

text \<open>
  The matches a loop \<open>match = p.exec(source); while (match) { ...; match = p.exec(source) }\<close>
  sees for a global pattern: \<open>exec\<close> searches from \<open>lastIndex\<close> on and leaves
  \<open>lastIndex\<close> at the end of the match. \<open>execAll r k s\<close> is run on the text \<open>s\<close> that
  starts at offset \<open>k\<close>; each match is its index and its text. When a match is empty,
  \<open>lastIndex\<close> stays where it is and \<open>exec\<close> returns the same match for ever: the flag
  is then \<open>True\<close> and that match is the last of the list.
\<close>

function execAll :: "re \<Rightarrow> nat \<Rightarrow> string \<Rightarrow> (nat \<times> string) list \<times> bool" where
  "execAll r k s =
     (case matchAt r s of
        None \<Rightarrow> (case s of [] \<Rightarrow> ([], False) | _ # s' \<Rightarrow> execAll r (Suc k) s')
      | Some n \<Rightarrow>
          if n = 0 then ([(k, [])], True)
          else (let (ms, loops) = execAll r (k + n) (drop n s)
                in ((k, take n s) # ms, loops)))"
  by pat_completeness auto
termination
proof (relation "measure (\<lambda>(r, k, s). length s)")
  show "wf (measure (\<lambda>(r, k, s). length s))" by simp
next
  fix r k s x21 x22
  assume "matchAt r s = None" "s = x21 # x22"
  then show "((r, Suc k, x22), r, k, s) \<in> measure (\<lambda>(r, k, s). length s)" by simp
next
  fix r k s n
  assume "matchAt r s = Some n" "n \<noteq> 0"
  then have "0 < length s"
    by (auto simp: matchAt_def split: list.splits)
  with \<open>n \<noteq> 0\<close> show "((r, k + n, drop n s), r, k, s) \<in> measure (\<lambda>(r, k, s). length s)"
    by simp
qed

declare execAll.simps [simp del]

section \<open>Registry entries\<close>

text \<open>
  A \<open>RegExp\<close> object is its \<open>source\<close> and where it comes from: entry \<open>k\<close> of
  \<open>humanTimeFormatRegex\<close> (\<open>origin = Some k\<close>) or a \<open>new RegExp(...)\<close>
  (\<open>origin = None\<close>). The code compares patterns with \<open>===\<close> only against catalog
  entries, and an object built by \<open>new RegExp\<close> is never identical to one of them.
\<close>

datatype RegExp = RegExp (origin: "nat option") (source: string)

record 'm Timestamp =
  tsText :: "string option"
  tsParsed :: "'m option"

record 'm ValidTimeNode =
  originalMatch :: string
  vid :: nat
  vindex :: nat
  timestamp :: "'m Timestamp"

text \<open>
  \<open>interface ParsedNode\<close>. The optional booleans are only ever tested for truth, so
  \<open>undefined\<close> is \<open>False\<close>; \<open>extendedText\<close> is read for its length, so
  \<open>undefined\<close> is \<open>None\<close>. \<open>index\<close> is a \<open>match.index\<close>, an offset into the text.
  The property \<open>id\<close> is \<open>idN\<close> here.
\<close>

record 'm ParsedNode =
  idN :: nat
  originalText :: string
  fresh :: bool
  isExtension :: bool
  extendedText :: "string option"
  converted :: bool
  index :: nat
  format :: RegExp
  parsed :: "'m ValidTimeNode option"

section \<open>The registry: getIntersectingNodes and addNode\<close>

definition getIntersectingNodes ::
  "nat \<Rightarrow> nat \<Rightarrow> 'm ParsedNode list \<Rightarrow> 'm ParsedNode list" where
  "getIntersectingNodes idx len arr =
     filter (\<lambda>node.
       let existingNodeStart = index node;
           existingNodeEnd = index node + length (originalText node);
           searchingNodeStart = idx;
           searchingNodeEnd = idx + len
       in (searchingNodeStart \<ge> existingNodeStart \<and> searchingNodeStart \<le> existingNodeEnd) \<or>
          (searchingNodeEnd \<ge> existingNodeStart \<and> searchingNodeEnd \<le> existingNodeEnd)) arr"

text \<open>
  The text a node is compared by in \<open>addNode\<close>:
  \<open>n.fresh ? n.isExtension ? n.extendedText : n.originalText : "?"\<close>.
\<close>

definition nodeText :: "'m ParsedNode \<Rightarrow> string option" where
  "nodeText n =
     (if fresh n then (if isExtension n then extendedText n else Some (originalText n))
      else Some ''?'')"

text \<open>
  \<open>intersectingNodes.find(n => oldNodeText.length > newNodeText.length)\<close>: the first
  node whose text is longer, in array order; \<open>.length\<close> of an undefined text throws.
\<close>

fun findLonger ::
  "'m ParsedNode \<Rightarrow> 'm ParsedNode list
     \<Rightarrow> failure + 'm ParsedNode option" where
  "findLonger node [] = Inr None"
| "findLonger node (n # ns) =
     (case nodeText n of
        None \<Rightarrow> Inl TypeError
      | Some oldNodeText \<Rightarrow>
          (case nodeText node of
             None \<Rightarrow> Inl TypeError
           | Some newNodeText \<Rightarrow>
               if length oldNodeText > length newNodeText then Inr (Some n)
               else findLonger node ns))"

definition keepNode :: "'m ParsedNode \<Rightarrow> 'm ParsedNode \<Rightarrow> bool" where
  "keepNode node n \<longleftrightarrow>
     index n < index node \<or> index n > index node + length (originalText node)"

definition addNode ::
  "'m ParsedNode \<Rightarrow> 'm ParsedNode list
     \<Rightarrow> failure + 'm ParsedNode list" where
  "addNode node targetArray =
     (let intersectingNodes =
            getIntersectingNodes (index node) (length (originalText node)) targetArray;
          filteredArray = filter (keepNode node) targetArray
      in case (if intersectingNodes \<noteq> [] then findLonger node intersectingNodes
               else Inr None) of
           Inl e \<Rightarrow> Inl e
         | Inr (Some longerNode) \<Rightarrow> Inr targetArray
         | Inr None \<Rightarrow> Inr (sort_key index (filteredArray @ [node])))"

section \<open>The pattern catalog\<close>

definition humanTimeFormats :: "string list" where
  "humanTimeFormats =
    [''YYYY-MM-DD HH:mm'',
     ''[at] HH:mm [on] DD/MM'',
     ''HH:mm [on] DD/MM'',
     ''HH:mm DD/MM/YYYY'',
     ''DD/MM/YYYY'',
     ''MM/DD/YYYY'',
     ''YYYY-MM-DD'',
     ''DD/MM'',
     ''MM/DD'',
     ''[at] h:mm:ss A'',
     ''h:mm:ss A'',
     ''[at] h:mm:ssA'',
     ''h:mm:ssA'',
     ''[at] h:mm A'',
     ''h:mm A'',
     ''[at] h:mmA'',
     ''h:mmA'',
     ''[at] hA'',
     ''hA'',
     ''[at] h A'',
     ''h A'',
     ''[at] HH:mm:ss'',
     ''HH:mm:ss'',
     ''[at] HH:mm'',
     ''HH:mm'']"

definition humanTimeFormatRegex :: "RegExp list" where
  "humanTimeFormatRegex =
    [RegExp (Some 0)
       (''[12]'' @ bsl # ''d{3}-(?:0[1-9]|1[0-2])-(?:0[1-9]|[12]'' @ bsl # ''d|3[01]) (?:[01]'' @ bsl # ''d|2[0-3]):(?:[0-5]'' @ bsl # ''d)''),
     RegExp (Some 1)
       (''at (?:[01]'' @ bsl # ''d|2[0-3]):(?:[0-5]'' @ bsl # ''d) on (?:0[1-9]|[12]'' @ bsl # ''d|3[01])'' @ bsl # ''/(?:0[1-9]|1[0-2])''),
     RegExp (Some 2)
       (''(?:[01]'' @ bsl # ''d|2[0-3]):(?:[0-5]'' @ bsl # ''d) on (?:0[1-9]|[12]'' @ bsl # ''d|3[01])'' @ bsl # ''/(?:0[1-9]|1[0-2])''),
     RegExp (Some 3)
       (''(?:[01]'' @ bsl # ''d|2[0-3]):(?:[0-5]'' @ bsl # ''d) (?:0[1-9]|[12]'' @ bsl # ''d|3[01])'' @ bsl # ''/(?:0[1-9]|1[0-2])'' @ bsl # ''/[12]'' @ bsl # ''d{3}''),
     RegExp (Some 4)
       (''(?:0[1-9]|[12]'' @ bsl # ''d|3[01])'' @ bsl # ''/(?:0[1-9]|1[0-2])'' @ bsl # ''/[12]'' @ bsl # ''d{3}''),
     RegExp (Some 5)
       (''(?:0[1-9]|1[0-2])'' @ bsl # ''/(?:0[1-9]|[12]'' @ bsl # ''d|3[01])'' @ bsl # ''/[12]'' @ bsl # ''d{3}''),
     RegExp (Some 6)
       (''[12]'' @ bsl # ''d{3}-(?:0[1-9]|1[0-2])-(?:0[1-9]|[12]'' @ bsl # ''d|3[01])''),
     RegExp (Some 7)
       (''(?:0[1-9]|[12]'' @ bsl # ''d|3[01])'' @ bsl # ''/(?:0[1-9]|1[0-2])''),
     RegExp (Some 8)
       (''(?:0[1-9]|1[0-2])'' @ bsl # ''/(?:0[1-9]|[12]'' @ bsl # ''d|3[01])''),
     RegExp (Some 9)
       (''at (?:0?[1-9]|1[0-2]):(?:[0-5]'' @ bsl # ''d):(?:[0-5]'' @ bsl # ''d) ?[AaPp][Mm]''),
     RegExp (Some 10)
       (''(?:0?[1-9]|1[0-2]):(?:[0-5]'' @ bsl # ''d):(?:[0-5]'' @ bsl # ''d) ?[AaPp][Mm]''),
     RegExp (Some 11)
       (''at (?:0?[1-9]|1[0-2]):(?:[0-5]'' @ bsl # ''d) ?[AaPp][Mm]''),
     RegExp (Some 12)
       (''(?:0?[1-9]|1[0-2]):(?:[0-5]'' @ bsl # ''d) ?[AaPp][Mm]''),
     RegExp (Some 13)
       (''at (?:0?[1-9]|1[0-2]) ?[AaPp][Mm]''),
     RegExp (Some 14)
       (''(?:0?[1-9]|1[0-2]) ?[AaPp][Mm]''),
     RegExp (Some 15)
       (''at (?:[01]'' @ bsl # ''d|2[0-3]):(?:[0-5]'' @ bsl # ''d):(?:[0-5]'' @ bsl # ''d)''),
     RegExp (Some 16)
       (''(?:[01]'' @ bsl # ''d|2[0-3]):(?:[0-5]'' @ bsl # ''d):(?:[0-5]'' @ bsl # ''d)''),
     RegExp (Some 17)
       (''at (?:[01]'' @ bsl # ''d|2[0-3]):(?:[0-5]'' @ bsl # ''d)''),
     RegExp (Some 18)
       (''(?:[01]'' @ bsl # ''d|2[0-3]):(?:[0-5]'' @ bsl # ''d)'')]"

section \<open>findTimesInOriginalSource\<close>

text \<open>
  \<open>new Date().getTime()\<close> is read once for each entry built. The readings are a
  function \<open>clock\<close> of how many were taken before; the count travels with the
  registry.
\<close>

type_synonym 'm registry = "nat \<times> 'm ParsedNode list"

text \<open>The global matches of a pattern in a text, or the failure of compiling it.\<close>

definition globalMatches :: "string \<Rightarrow> string \<Rightarrow> failure + ((nat \<times> string) list \<times> bool)" where
  "globalMatches patternSource src =
     (case newRegExp patternSource of
        None \<Rightarrow> Inl SyntaxError
      | Some r \<Rightarrow> Inr (execAll r 0 src))"

subsection \<open>Reconciling the registry with the text (lines 245 to 263)\<close>

text \<open>
  The result is \<open>placeholderValues\<close> and the new \<open>parsedNodes\<close>.
  \<open>toRemove.includes(n)\<close> compares objects by identity; whether an entry was pushed
  to \<open>toRemove\<close> depends on its \<open>index\<close> alone, so an entry equal to one of
  \<open>toRemove\<close> is removed like it.
\<close>

definition reconcile ::
  "string \<Rightarrow> 'm ParsedNode list \<Rightarrow> 'm ParsedNode list \<times> 'm ParsedNode list" where
  "reconcile src parsedNodes =
     (if includesStr src ''?'' then
        (let placeholderValues =
               filter (\<lambda>node. charAt src (index node) = ''?'') (rev parsedNodes);
             toRemove =
               filter (\<lambda>node. charAt src (index node) \<noteq> ''?'') (rev parsedNodes)
         in (placeholderValues, filter (\<lambda>n. n \<notin> set toRemove) parsedNodes))
      else ([], filter (\<lambda>n. n \<notin> set []) []))"

subsection \<open>The scan of the plain source (lines 266 to 282)\<close>

definition freshNode :: "nat \<Rightarrow> RegExp \<Rightarrow> nat \<times> string \<Rightarrow> 'm ParsedNode" where
  "freshNode t pattern m =
     \<lparr>idN = t, originalText = snd m, fresh = True, isExtension = False,
      extendedText = None, converted = False, index = fst m, format = pattern,
      parsed = None\<rparr>"

fun scanMatches ::
  "(nat \<Rightarrow> nat) \<Rightarrow> RegExp \<Rightarrow> (nat \<times> string) list \<Rightarrow> 'm registry \<Rightarrow> failure + 'm registry" where
  "scanMatches clock pattern [] reg = Inr reg"
| "scanMatches clock pattern (m # ms) reg =
     (case addNode (freshNode (clock (fst reg)) pattern m) (snd reg) of
        Inl e \<Rightarrow> Inl e
      | Inr parsedNodes \<Rightarrow> scanMatches clock pattern ms (Suc (fst reg), parsedNodes))"

fun scanPatterns ::
  "(nat \<Rightarrow> nat) \<Rightarrow> string \<Rightarrow> RegExp list \<Rightarrow> 'm registry \<Rightarrow> failure + 'm registry" where
  "scanPatterns clock src [] reg = Inr reg"
| "scanPatterns clock src (pattern # ps) reg =
     (case globalMatches (source pattern) src of
        Inl e \<Rightarrow> Inl e
      | Inr (ms, loops) \<Rightarrow>
          (case scanMatches clock pattern ms reg of
             Inl e \<Rightarrow> Inl e
           | Inr reg' \<Rightarrow> if loops then Inl NoReturn else scanPatterns clock src ps reg'))"

subsection \<open>The extended matches (lines 285 to 315)\<close>

definition extensionNode ::
  "nat \<Rightarrow> RegExp \<Rightarrow> 'm ParsedNode \<Rightarrow> nat \<times> string \<Rightarrow> 'm ParsedNode" where
  "extensionNode t globalPattern node m =
     \<lparr>idN = t, originalText = snd m, fresh = True, isExtension = True,
      extendedText = Some (replaceStr (snd m) ''?'' (originalText node)),
      converted = False, index = fst m, format = globalPattern, parsed = None\<rparr>"

text \<open>\<open>new RegExp(pattern.source.replace(node.format.source, "(\\?)"), "g")\<close>.\<close>

definition extensionPattern :: "RegExp \<Rightarrow> 'm ParsedNode \<Rightarrow> RegExp" where
  "extensionPattern pattern node =
     RegExp None
       (replaceStr (source pattern) (source (format node)) (''('' @ bsl # ''?)''))"

fun extendMatches ::
  "(nat \<Rightarrow> nat) \<Rightarrow> 'm ParsedNode \<Rightarrow> RegExp \<Rightarrow> (nat \<times> string) list \<Rightarrow> 'm registry
     \<Rightarrow> failure + 'm registry" where
  "extendMatches clock node globalPattern [] reg = Inr reg"
| "extendMatches clock node globalPattern (m # ms) reg =
     (if index node \<noteq> fst m then extendMatches clock node globalPattern ms reg
      else
        (case addNode (extensionNode (clock (fst reg)) globalPattern node m) (snd reg) of
           Inl e \<Rightarrow> Inl e
         | Inr parsedNodes \<Rightarrow>
             extendMatches clock node globalPattern ms (Suc (fst reg), parsedNodes)))"

fun extendPatterns ::
  "(nat \<Rightarrow> nat) \<Rightarrow> string \<Rightarrow> 'm ParsedNode \<Rightarrow> RegExp list \<Rightarrow> 'm registry
     \<Rightarrow> failure + 'm registry" where
  "extendPatterns clock src node [] reg = Inr reg"
| "extendPatterns clock src node (pattern # ps) reg =
     (if pattern = format node then extendPatterns clock src node ps reg
      else
        (case globalMatches (source (extensionPattern pattern node)) src of
           Inl e \<Rightarrow> Inl e
         | Inr (ms, loops) \<Rightarrow>
             (case extendMatches clock node (extensionPattern pattern node) ms reg of
                Inl e \<Rightarrow> Inl e
              | Inr reg' \<Rightarrow>
                  if loops then Inl NoReturn
                  else extendPatterns clock src node ps reg')))"

fun extendNodes ::
  "(nat \<Rightarrow> nat) \<Rightarrow> string \<Rightarrow> 'm ParsedNode list \<Rightarrow> 'm registry \<Rightarrow> failure + 'm registry" where
  "extendNodes clock src [] reg = Inr reg"
| "extendNodes clock src (node # ns) reg =
     (case extendPatterns clock src node humanTimeFormatRegex reg of
        Inl e \<Rightarrow> Inl e
      | Inr reg' \<Rightarrow> extendNodes clock src ns reg')"

subsection \<open>The whole function\<close>

definition findTimesInOriginalSource ::
  "(nat \<Rightarrow> nat) \<Rightarrow> string \<Rightarrow> 'm registry \<Rightarrow> failure + 'm registry" where
  "findTimesInOriginalSource clock src reg =
     (let (placeholderValues, parsedNodes) = reconcile src (snd reg)
      in case scanPatterns clock src humanTimeFormatRegex (fst reg, parsedNodes) of
           Inl e \<Rightarrow> Inl e
         | Inr reg1 \<Rightarrow>
             (case extendNodes clock src placeholderValues reg1 of
                Inl e \<Rightarrow> Inl e
              | Inr reg2 \<Rightarrow> Inr (fst reg2, sort_key index (snd reg2))))"

section \<open>The validTime rule\<close>

subsection \<open>match on the whole string (lines 340 to 378)\<close>

text \<open>
  An element of \<open>state.splitNodes\<close>. The properties \<open>relevantNode\<close> and \<open>node\<close>,
  references to the registry entry, are not part of the value; \<open>sId\<close> is the
  entry's \<open>id\<close>, \<open>-1\<close> for the text after an entry, and absent for the text before
  the first entry.
\<close>

record SplitNode =
  sIndex :: nat
  sText :: string
  actualText :: "string option"
  sType :: string
  sId :: "int option"

fun splitLoop ::
  "string \<Rightarrow> 'm ParsedNode list \<Rightarrow> int \<Rightarrow> SplitNode list \<Rightarrow> int \<times> SplitNode list" where
  "splitLoop src [] prevIndex splitNodes = (prevIndex, splitNodes)"
| "splitLoop src (node # ns) prevIndex splitNodes =
     (let nodeLength = (if fresh node then length (originalText node) else 1);
          prevIndex1 = (if prevIndex = - 1 then int (index node + nodeLength) else prevIndex);
          afterText = (if int (index node) = prevIndex1 then []
                       else substring src (index node + nodeLength) (nat prevIndex1));
          splitNodes1 =
            (if afterText \<noteq> [] then
               splitNodes @
                 [\<lparr>sIndex = index node + nodeLength, sText = afterText, actualText = None,
                   sType = ''prepText'', sId = Some (- 1)\<rparr>]
             else splitNodes);
          splitNodes2 =
            splitNodes1 @
              [\<lparr>sIndex = index node, sText = originalText node,
                actualText = Some (if fresh node then originalText node else ''?''),
                sType = ''prepValidTime'', sId = Some (int (idN node))\<rparr>]
      in splitLoop src ns (int (index node)) splitNodes2)"

text \<open>
  The branch of \<open>match\<close> taken for the whole string (\<open>state.isSlate\<close>, no previous
  capture, no nesting). The result is \<open>state.splitNodes\<close> (\<open>None\<close> when the rule
  returns \<open>null\<close> because no entry is fresh) and the registry the call leaves behind;
  the match of \<open>/^.*/\<close> that the rule returns otherwise carries nothing more.
\<close>

definition matchWholeString ::
  "(nat \<Rightarrow> nat) \<Rightarrow> string \<Rightarrow> 'm registry \<Rightarrow> failure + (SplitNode list option \<times> 'm registry)" where
  "matchWholeString clock src reg =
     (case findTimesInOriginalSource clock src reg of
        Inl e \<Rightarrow> Inl e
      | Inr reg1 \<Rightarrow>
          if \<not> list_ex fresh (snd reg1) then Inr (None, reg1)
          else
            (let (prevIndex, splitNodes) = splitLoop src (rev (snd reg1)) (- 1) [];
                 beforeText = substring src 0 (nat prevIndex);
                 splitNodes1 =
                   (if beforeText \<noteq> [] then
                      splitNodes @
                        [\<lparr>sIndex = 0, sText = beforeText, actualText = None,
                          sType = ''prepText'', sId = None\<rparr>]
                    else splitNodes)
             in Inr (Some (sort_key sIndex splitNodes1),
                     (fst reg1, map (\<lambda>node. node\<lparr>fresh := False\<rparr>) (snd reg1)))))"

subsection \<open>parseHumanTime and parse (lines 127 to 144, 414 to 438)\<close>

text \<open>
  \<open>moment\<close> is not part of the plugin. \<open>strict s f\<close> is \<open>moment(s, f, true)\<close> when it is
  valid, \<open>natural s\<close> is \<open>moment(s)\<close> when it is valid, for a time string of any type.
\<close>

fun tryFormats :: "('s \<Rightarrow> string \<Rightarrow> 'm option) \<Rightarrow> 's \<Rightarrow> string list \<Rightarrow> 'm option" where
  "tryFormats strict timeString [] = None"
| "tryFormats strict timeString (fmt # fmts) =
     (case strict timeString fmt of
        Some valid \<Rightarrow> Some valid
      | None \<Rightarrow> tryFormats strict timeString fmts)"

definition parseHumanTime ::
  "('s \<Rightarrow> string \<Rightarrow> 'm option) \<Rightarrow> ('s \<Rightarrow> 'm option) \<Rightarrow> 's \<Rightarrow> 'm option" where
  "parseHumanTime strict natural timeString =
     (case tryFormats strict timeString humanTimeFormats of
        Some valid \<Rightarrow> Some valid
      | None \<Rightarrow>
          (case natural timeString of
             Some valid \<Rightarrow> Some valid
           | None \<Rightarrow> None))"

text \<open>The first element that satisfies \<open>P\<close>, replaced by its image.\<close>

fun updateFirst :: "('a \<Rightarrow> bool) \<Rightarrow> ('a \<Rightarrow> 'a) \<Rightarrow> 'a list \<Rightarrow> 'a list" where
  "updateFirst P f [] = []"
| "updateFirst P f (x # xs) = (if P x then f x # xs else x # updateFirst P f xs)"

text \<open>
  The branch of \<open>parse\<close> for a proper timestamp: the node built, if the entry with
  \<open>state.matchId\<close> is found, and the registry with that entry updated in place.
\<close>

definition parseValidTime ::
  "(string option \<Rightarrow> string \<Rightarrow> 'm option) \<Rightarrow> (string option \<Rightarrow> 'm option) \<Rightarrow> string \<Rightarrow> nat
     \<Rightarrow> 'm ParsedNode list \<Rightarrow> 'm ValidTimeNode option \<times> 'm ParsedNode list" where
  "parseValidTime strict natural match0 matchId parsedNodes =
     (case find (\<lambda>n. idN n = matchId) parsedNodes of
        None \<Rightarrow> (None, parsedNodes)
      | Some node \<Rightarrow>
          (let txt = (if isExtension node then extendedText node else Some (originalText node));
               validTimeNode =
                 \<lparr>originalMatch = match0, vid = idN node, vindex = index node,
                  timestamp = \<lparr>tsText = txt, tsParsed = parseHumanTime strict natural txt\<rparr>\<rparr>
           in (Some validTimeNode,
               updateFirst (\<lambda>n. idN n = matchId)
                 (\<lambda>n. n\<lparr>originalText := (case txt of None \<Rightarrow> [] | Some t \<Rightarrow> t),
                        fresh := False, parsed := Some validTimeNode, converted := True,
                        isExtension := False, extendedText := None\<rparr>)
                 parsedNodes)))"

section \<open>Notions used in the statements\<close>

text \<open>
  The specification's reading of two ranges intersecting: either endpoint of one
  falls within the other's range, shared boundary endpoints included.
\<close>

definition specIntersects :: "nat \<Rightarrow> nat \<Rightarrow> nat \<Rightarrow> nat \<Rightarrow> bool" where
  "specIntersects aStart aLen bStart bLen \<longleftrightarrow>
     (bStart \<le> aStart \<and> aStart \<le> bStart + bLen) \<or>
     (bStart \<le> aStart + aLen \<and> aStart + aLen \<le> bStart + bLen) \<or>
     (aStart \<le> bStart \<and> bStart \<le> aStart + aLen) \<or>
     (aStart \<le> bStart + bLen \<and> bStart + bLen \<le> aStart + aLen)"

text \<open>
  The specification's reading of a span's displayed length: the length of
  \<open>extendedText\<close> if the span is extended, else of \<open>originalText\<close>.
\<close>

definition specDisplayedLength :: "'m ParsedNode \<Rightarrow> nat" where
  "specDisplayedLength n =
     (case extendedText n of
        Some e \<Rightarrow> if isExtension n then length e else length (originalText n)
      | None \<Rightarrow> length (originalText n))"

text \<open>
  No comparison of \<open>addNode\<close> reads the length of an undefined text: the
  candidate and the entries that \<open>getIntersectingNodes\<close> reports for it have one.
\<close>

definition textsDefined :: "'m ParsedNode \<Rightarrow> 'm ParsedNode list \<Rightarrow> bool" where
  "textsDefined node arr \<longleftrightarrow>
     nodeText node \<noteq> None \<and>
     list_all (\<lambda>n. nodeText n \<noteq> None)
       (getIntersectingNodes (index node) (length (originalText node)) arr)"

text \<open>None of the reported entries is compared by a strictly longer text.\<close>

definition noneLonger :: "'m ParsedNode \<Rightarrow> 'm ParsedNode list \<Rightarrow> bool" where
  "noneLonger node arr \<longleftrightarrow>
     list_all (\<lambda>n. length (the (nodeText n)) \<le> length (the (nodeText node)))
       (getIntersectingNodes (index node) (length (originalText node)) arr)"

text \<open>
  The specification's ranges \<open>[start, start + length)\<close> of two entries intersect.
\<close>

definition rangesOverlap :: "'m ParsedNode \<Rightarrow> 'm ParsedNode \<Rightarrow> bool" where
  "rangesOverlap a b \<longleftrightarrow>
     index a < index b + length (originalText b) \<and> index b < index a + length (originalText a)"






text \<open>An entry with its \<open>id\<close> blanked.\<close>

definition withoutId :: "'m ParsedNode \<Rightarrow> 'm ParsedNode" where
  "withoutId n = n\<lparr>idN := 0\<rparr>"

subsection \<open>Entries used in the examples\<close>

text \<open>
  The entry that a pass over \<open>13:30\<close> leaves in the registry, and the extension built
  from it when the text has become \<open>? on 21/03\<close>.
\<close>

definition heldTime :: "unit ParsedNode" where
  "heldTime = (freshNode 0 (humanTimeFormatRegex ! 18) (0, ''13:30''))\<lparr>fresh := False\<rparr>"

definition widened :: "unit ParsedNode" where
  "widened =
     extensionNode 2 (extensionPattern (humanTimeFormatRegex ! 2) heldTime) heldTime
       (0, ''? on 21/03'')"

section \<open>Properties of the registry\<close>

lemma findLonger_found:
  assumes "nodeText node = Some t" and "\<forall>n \<in> set ns. nodeText n \<noteq> None"
    and "\<exists>n \<in> set ns. length t < length (the (nodeText n))"
  shows "\<exists>n \<in> set ns. findLonger node ns = Inr (Some n)"
  using assms by (induction ns) (auto split: option.splits)

lemma findLonger_none:
  assumes "nodeText node = Some t" and "\<forall>n \<in> set ns. nodeText n \<noteq> None"
    and "\<forall>n \<in> set ns. length (the (nodeText n)) \<le> length t"
  shows "findLonger node ns = Inr None"
  using assms by (induction ns) (auto split: option.splits)

lemma addNode_discard:
  assumes "textsDefined node arr" and "\<not> noneLonger node arr"
  shows "addNode node arr = Inr arr"
proof -
  let ?is = "getIntersectingNodes (index node) (length (originalText node)) arr"
  from assms(1) obtain t where t: "nodeText node = Some t" and d: "\<forall>n \<in> set ?is. nodeText n \<noteq> None"
    by (auto simp: textsDefined_def list_all_iff)
  from assms(2) t have l: "\<exists>n \<in> set ?is. length t < length (the (nodeText n))"
    by (auto simp: noneLonger_def list_all_iff not_le)
  from findLonger_found [OF t d l] obtain n where "findLonger node ?is = Inr (Some n)" by blast
  moreover from l have "?is \<noteq> []" by auto
  ultimately show ?thesis by (simp add: addNode_def Let_def)
qed

lemma addNode_accept:
  assumes "textsDefined node arr" and "noneLonger node arr"
  shows "addNode node arr = Inr (sort_key index (filter (keepNode node) arr @ [node]))"
proof -
  let ?is = "getIntersectingNodes (index node) (length (originalText node)) arr"
  from assms(1) obtain t where t: "nodeText node = Some t" and d: "\<forall>n \<in> set ?is. nodeText n \<noteq> None"
    by (auto simp: textsDefined_def list_all_iff)
  from assms(2) t have l: "\<forall>n \<in> set ?is. length (the (nodeText n)) \<le> length t"
    by (auto simp: noneLonger_def list_all_iff)
  from findLonger_none [OF t d l] show ?thesis by (simp add: addNode_def Let_def)
qed

lemma getIntersectingNodes_iff:
  "n \<in> set (getIntersectingNodes i len arr) \<longleftrightarrow>
     n \<in> set arr \<and>
     (index n \<le> i \<and> i \<le> index n + length (originalText n) \<or>
      index n \<le> i + len \<and> i + len \<le> index n + length (originalText n))"
  by (auto simp: getIntersectingNodes_def Let_def)

subsection \<open>What getIntersectingNodes reports\<close>

text \<open>
  Claim C4, as the code has it. \<open>getIntersectingNodes i len arr\<close> reports an entry
  exactly when the start \<open>i\<close> or the end \<open>i + len\<close> of the queried range lies
  within the entry's range, boundaries included. The test looks at the endpoints of
  the queried range only: an entry lying strictly inside the queried range is not
  reported.
\<close>
theorem getIntersectingNodes_query_endpoints:
  "(n \<in> set (getIntersectingNodes i len arr) \<longleftrightarrow>
      n \<in> set arr \<and>
      (index n \<le> i \<and> i \<le> index n + length (originalText n) \<or>
       index n \<le> i + len \<and> i + len \<le> index n + length (originalText n))) \<and>
   (i < index n \<and> index n + length (originalText n) < i + len
      \<longrightarrow> n \<notin> set (getIntersectingNodes i len arr))"
  by (auto simp: getIntersectingNodes_iff)

theorem getIntersectingNodes_query_endpoints_witness:
  "freshNode 0 (RegExp None []) (0, ''13:30'')
     \<in> set (getIntersectingNodes 2 1 [freshNode 0 (RegExp None []) (0, ''13:30'') :: unit ParsedNode]) \<and>
   (0::nat) < 5 \<and> 5 + length ''13:30'' < (0::nat) + 20 \<and>
   freshNode 0 (RegExp None []) (5, ''13:30'')
     \<notin> set (getIntersectingNodes 0 20 [freshNode 0 (RegExp None []) (5, ''13:30'') :: unit ParsedNode])"
  using getIntersectingNodes_query_endpoints
    [of "freshNode 0 (RegExp None []) (0, ''13:30'') :: unit ParsedNode" 2 1
        "[freshNode 0 (RegExp None []) (0, ''13:30'')]"]
    getIntersectingNodes_query_endpoints
    [of "freshNode 0 (RegExp None []) (5, ''13:30'') :: unit ParsedNode" 0 20
        "[freshNode 0 (RegExp None []) (5, ''13:30'')]"]
  by (simp add: freshNode_def)

text \<open>
  The queried range from 0 to 20 holds both endpoints of the entry at 5 with five
  characters, so the two intersect in the specification's reading; the entry is not
  reported.
\<close>

theorem getIntersectingNodes_symmetric_counterexample:
  "specIntersects 0 20 5 (length ''13:30'') \<and>
   getIntersectingNodes 0 20 [freshNode 0 (RegExp None []) (5, ''13:30'') :: unit ParsedNode] = []"
  by (simp add: specIntersects_def getIntersectingNodes_def freshNode_def)

subsection \<open>What addNode does with a candidate\<close>

text \<open>
  Claim C2, as the code has it. If an entry that \<open>getIntersectingNodes\<close> reports for
  the candidate is compared by a strictly longer text than the candidate, \<open>addNode\<close>
  returns the registry unchanged. The text compared is \<open>"?"\<close> for an entry that is
  not fresh, else \<open>extendedText\<close> for an extension, else \<open>originalText\<close>.
\<close>
theorem addNode_discards_for_longer_text:
  assumes "textsDefined node arr"
    and "n \<in> set (getIntersectingNodes (index node) (length (originalText node)) arr)"
    and "length (the (nodeText node)) < length (the (nodeText n))"
  shows "addNode node arr = Inr arr"
proof -
  from assms(2,3) have "\<not> noneLonger node arr"
    by (force simp: noneLonger_def list_all_iff not_le)
  with assms(1) show ?thesis by (rule addNode_discard)
qed

theorem addNode_discards_for_longer_text_witness:
  "textsDefined
     (freshNode 2 (RegExp None []) (0, ''13:30''))
     [freshNode 0 (RegExp None []) (0, ''13:30:45'') :: unit ParsedNode] \<and>
   freshNode 0 (RegExp None []) (0, ''13:30:45'')
     \<in> set (getIntersectingNodes 0 5 [freshNode 0 (RegExp None []) (0, ''13:30:45'') :: unit ParsedNode]) \<and>
   addNode (freshNode 2 (RegExp None []) (0, ''13:30''))
     [freshNode 0 (RegExp None []) (0, ''13:30:45'') :: unit ParsedNode]
     = Inr [freshNode 0 (RegExp None []) (0, ''13:30:45'')]"
  using addNode_discards_for_longer_text
    [of "freshNode 2 (RegExp None []) (0, ''13:30'') :: unit ParsedNode"
        "[freshNode 0 (RegExp None []) (0, ''13:30:45'')]"
        "freshNode 0 (RegExp None []) (0, ''13:30:45'')"]
  by (simp add: textsDefined_def getIntersectingNodes_def nodeText_def freshNode_def)

text \<open>
  The entry left by an earlier pass for \<open>13:30:45\<close> is no longer fresh and stands
  in the text \<open>? 21/03\<close> as the placeholder. It is reported for the candidate
  \<open>21/03\<close> and its original text is the longer one, yet the candidate is added.
\<close>

theorem addNode_discard_counterexample:
  "(freshNode 0 (RegExp None []) (0, ''13:30:45'') :: unit ParsedNode)\<lparr>fresh := False\<rparr>
     \<in> set (getIntersectingNodes 2 (length ''21/03'')
          [(freshNode 0 (RegExp None []) (0, ''13:30:45''))\<lparr>fresh := False\<rparr>]) \<and>
   specDisplayedLength (freshNode 2 (RegExp None []) (2, ''21/03'') :: unit ParsedNode)
     < specDisplayedLength ((freshNode 0 (RegExp None []) (0, ''13:30:45'') :: unit ParsedNode)\<lparr>fresh := False\<rparr>) \<and>
   addNode (freshNode 2 (RegExp None []) (2, ''21/03''))
     [(freshNode 0 (RegExp None []) (0, ''13:30:45'') :: unit ParsedNode)\<lparr>fresh := False\<rparr>]
     = Inr [(freshNode 0 (RegExp None []) (0, ''13:30:45''))\<lparr>fresh := False\<rparr>,
            freshNode 2 (RegExp None []) (2, ''21/03'')]"
  by (simp add: getIntersectingNodes_def specDisplayedLength_def addNode_def nodeText_def
      keepNode_def freshNode_def)


text \<open>
  Claim C3, as the code has it. A candidate that no reported entry outgrows is
  added, the entries whose start lies within the candidate's range, boundaries
  included, are removed whatever their end, every other entry stays, and the result
  is sorted by \<open>index\<close>.
\<close>
theorem addNode_removes_by_start:
  assumes "textsDefined node arr" and "noneLonger node arr"
  shows "\<exists>res. addNode node arr = Inr res \<and>
           mset res =
             mset (filter (\<lambda>n. index n < index node \<or>
                                 index node + length (originalText node) < index n) arr)
               + {#node#} \<and>
           sorted (map index res)"
  using addNode_accept [OF assms]
  by (simp add: keepNode_def sorted_sort_key del: sort_key_simps)

theorem addNode_removes_by_start_witness:
  "textsDefined (freshNode 2 (RegExp None []) (0, ''13:30''))
     [freshNode 0 (RegExp None []) (5, ''21/03'') :: unit ParsedNode] \<and>
   noneLonger (freshNode 2 (RegExp None []) (0, ''13:30''))
     [freshNode 0 (RegExp None []) (5, ''21/03'') :: unit ParsedNode] \<and>
   (\<exists>res. addNode (freshNode 2 (RegExp None []) (0, ''13:30''))
            [freshNode 0 (RegExp None []) (5, ''21/03'') :: unit ParsedNode] = Inr res \<and>
          mset res = {#freshNode 2 (RegExp None []) (0, ''13:30'')#} \<and>
          sorted (map index res))"
proof -
  let ?c = "freshNode 2 (RegExp None []) (0, ''13:30'') :: unit ParsedNode"
  let ?h = "freshNode 0 (RegExp None []) (5, ''21/03'') :: unit ParsedNode"
  have d: "textsDefined ?c [?h]"
    by (simp add: textsDefined_def getIntersectingNodes_def nodeText_def freshNode_def)
  have l: "noneLonger ?c [?h]"
    by (simp add: noneLonger_def getIntersectingNodes_def nodeText_def freshNode_def)
  have f: "filter (\<lambda>n. index n < index ?c \<or> index ?c + length (originalText ?c) < index n) [?h] = []"
    by (simp add: freshNode_def)
  from addNode_removes_by_start [OF d l] d l show ?thesis
    unfolding f by simp
qed

text \<open>
  In \<open>2024-03-21/03/2024\<close> the entry \<open>21/03/2024\<close> starts inside the candidate
  \<open>2024-03-21\<close> and ends beyond it; in \<open>13:3021/03\<close> the entry \<open>21/03\<close> starts
  where the candidate \<open>13:30\<close> ends. Both are removed.
\<close>

theorem addNode_removal_counterexample:
  "addNode (freshNode 2 (RegExp None []) (0, ''2024-03-21''))
     [freshNode 0 (RegExp None []) (8, ''21/03/2024'') :: unit ParsedNode]
     = Inr [freshNode 2 (RegExp None []) (0, ''2024-03-21'')] \<and>
   0 + length ''2024-03-21'' < 8 + length ''21/03/2024'' \<and>
   addNode (freshNode 2 (RegExp None []) (0, ''13:30''))
     [freshNode 0 (RegExp None []) (5, ''21/03'') :: unit ParsedNode]
     = Inr [freshNode 2 (RegExp None []) (0, ''13:30'')]"
  by (simp add: addNode_def getIntersectingNodes_def nodeText_def keepNode_def freshNode_def)




section \<open>Properties of a pass\<close>

lemma indexOf_char: "indexOf s [c] = None \<longleftrightarrow> c \<notin> set s"
  by (induction s) auto

lemma includesStr_char: "includesStr s [c] \<longleftrightarrow> c \<in> set s"
  by (simp add: includesStr_def indexOf_char)

lemma charAt_in_set: "charAt s i = [c] \<Longrightarrow> c \<in> set s"
  by (auto simp: charAt_def split: if_splits)

lemma reconcile_eq:
  "reconcile src nodes =
     (filter (\<lambda>n. charAt src (index n) = ''?'') (rev nodes),
      filter (\<lambda>n. charAt src (index n) = ''?'') nodes)"
proof (cases "CHR ''?'' \<in> set src")
  case True
  then have inc: "includesStr src ''?''" by (simp add: includesStr_char)
  have "filter (\<lambda>n. n \<notin> set (filter (\<lambda>node. charAt src (index node) \<noteq> ''?'') (rev nodes))) nodes
      = filter (\<lambda>n. charAt src (index n) = ''?'') nodes"
    by (rule filter_cong) auto
  with inc show ?thesis by (simp add: reconcile_def Let_def)
next
  case False
  then have inc: "\<not> includesStr src ''?''" by (simp add: includesStr_char)
  from False have "\<And>i. charAt src i \<noteq> ''?''"
    using charAt_in_set by fastforce
  with inc show ?thesis by (simp add: reconcile_def)
qed

lemma reconcile_no_marker:
  "CHR ''?'' \<notin> set src \<Longrightarrow> reconcile src nodes = ([], [])"
  by (simp add: reconcile_def includesStr_char)

subsection \<open>Reconciling\<close>

text \<open>
  Claim C7. The entries kept as \<open>placeholderValues\<close>, the candidates for widening,
  are exactly the held entries at whose \<open>index\<close> the text has the marker \<open>?\<close>
  (latest first); the registry keeps exactly these and drops every other entry; and a
  text without any marker empties both.
\<close>

theorem reconcile_keeps_placeholders:
  "fst (reconcile src nodes) = filter (\<lambda>n. charAt src (index n) = ''?'') (rev nodes) \<and>
   snd (reconcile src nodes) = filter (\<lambda>n. charAt src (index n) = ''?'') nodes \<and>
   (\<forall>n \<in> set nodes. charAt src (index n) \<noteq> ''?'' \<longrightarrow> n \<notin> set (snd (reconcile src nodes))) \<and>
   (CHR ''?'' \<notin> set src \<longrightarrow> reconcile src nodes = ([], []))"
  using reconcile_no_marker [of src nodes] by (simp add: reconcile_eq)

theorem reconcile_keeps_placeholders_witness:
  "reconcile ''? 21/03''
     [(freshNode 0 (RegExp None []) (0, ''13:30'') :: unit ParsedNode)\<lparr>fresh := False\<rparr>,
      (freshNode 2 (RegExp None []) (3, ''14:30''))\<lparr>fresh := False\<rparr>]
     = ([(freshNode 0 (RegExp None []) (0, ''13:30''))\<lparr>fresh := False\<rparr>],
        [(freshNode 0 (RegExp None []) (0, ''13:30''))\<lparr>fresh := False\<rparr>]) \<and>
   CHR ''?'' \<notin> set ''13:30'' \<and>
   reconcile ''13:30''
     [(freshNode 0 (RegExp None []) (0, ''13:30'') :: unit ParsedNode)\<lparr>fresh := False\<rparr>] = ([], [])"
proof -
  let ?p = "(freshNode 0 (RegExp None []) (0, ''13:30'') :: unit ParsedNode)\<lparr>fresh := False\<rparr>"
  let ?q = "(freshNode 2 (RegExp None []) (3, ''14:30'') :: unit ParsedNode)\<lparr>fresh := False\<rparr>"
  have a: "charAt ''? 21/03'' (index ?p) = ''?''" and b: "charAt ''? 21/03'' (index ?q) \<noteq> ''?''"
    by (simp_all add: charAt_def freshNode_def)
  have n: "CHR ''?'' \<notin> set ''13:30''" by simp
  from reconcile_keeps_placeholders [of "''? 21/03''" "[?p, ?q]"] a b
  have "fst (reconcile ''? 21/03'' [?p, ?q]) = [?p]" "snd (reconcile ''? 21/03'' [?p, ?q]) = [?p]"
    by simp_all
  then have "reconcile ''? 21/03'' [?p, ?q] = ([?p], [?p])"
    by (simp add: prod_eq_iff)
  moreover from reconcile_keeps_placeholders [of "''13:30''" "[?p]"] n
  have "reconcile ''13:30'' [?p] = ([], [])" by blast
  ultimately show ?thesis using n by blast
qed

lemma tryFormats_find:
  "tryFormats strict s fmts =
     (case find (\<lambda>f. strict s f \<noteq> None) fmts of None \<Rightarrow> None | Some f \<Rightarrow> strict s f)"
  by (induction fmts) (auto split: option.splits)

subsection \<open>Resolving a time\<close>

text \<open>
  Claim C5. \<open>parseHumanTime\<close> returns the strict parse by the first format of
  \<open>humanTimeFormats\<close>, in the order of the list, that parses the text; if no format
  does, the natural parse of the text; and \<open>null\<close> (\<open>None\<close>) if that fails too. In
  \<open>parse\<close> the result is stored as it is: whenever the entry is found the node is
  built, with a \<open>null\<close> time as with any other.
\<close>
theorem parseHumanTime_strict_then_natural:
  "parseHumanTime strict natural s =
     (case find (\<lambda>f. strict s f \<noteq> None) humanTimeFormats of
        Some f \<Rightarrow> strict s f
      | None \<Rightarrow> natural s) \<and>
   (case find (\<lambda>n. idN n = matchId) nodes of
      None \<Rightarrow> fst (parseValidTime strict' natural' m0 matchId nodes) = None
    | Some node \<Rightarrow>
        (\<exists>v. fst (parseValidTime strict' natural' m0 matchId nodes) = Some v \<and>
             tsParsed (timestamp v) =
               parseHumanTime strict' natural'
                 (if isExtension node then extendedText node else Some (originalText node))))"
proof -
  have "parseHumanTime strict natural s =
     (case find (\<lambda>f. strict s f \<noteq> None) humanTimeFormats of
        Some f \<Rightarrow> strict s f
      | None \<Rightarrow> natural s)"
    unfolding parseHumanTime_def tryFormats_find
    by (auto split: option.splits dest: find_Some_iff [THEN iffD1])
  moreover have "(case find (\<lambda>n. idN n = matchId) nodes of
      None \<Rightarrow> fst (parseValidTime strict' natural' m0 matchId nodes) = None
    | Some node \<Rightarrow>
        (\<exists>v. fst (parseValidTime strict' natural' m0 matchId nodes) = Some v \<and>
             tsParsed (timestamp v) =
               parseHumanTime strict' natural'
                 (if isExtension node then extendedText node else Some (originalText node))))"
    by (simp add: parseValidTime_def Let_def split: option.splits)
  ultimately show ?thesis by blast
qed


theorem parseHumanTime_strict_then_natural_witness:
  "parseHumanTime
     (\<lambda>s f. if s = ''13:30'' \<and> f = ''HH:mm'' then Some (810 :: nat) else None)
     (\<lambda>s. if s = ''tomorrow'' then Some 1440 else None) ''13:30'' = Some 810 \<and>
   parseHumanTime
     (\<lambda>s f. if s = ''13:30'' \<and> f = ''HH:mm'' then Some (810 :: nat) else None)
     (\<lambda>s. if s = ''tomorrow'' then Some 1440 else None) ''tomorrow'' = Some 1440 \<and>
   parseHumanTime
     (\<lambda>s f. if s = ''13:30'' \<and> f = ''HH:mm'' then Some (810 :: nat) else None)
     (\<lambda>s. if s = ''tomorrow'' then Some 1440 else None) ''13:3'' = None"
proof -
  let ?strict = "\<lambda>s f. if s = ''13:30'' \<and> f = ''HH:mm'' then Some (810 :: nat) else None"
  let ?natural = "\<lambda>s. if s = ''tomorrow'' then Some (1440 :: nat) else None"
  note t = parseHumanTime_strict_then_natural
    [where strict = ?strict and natural = ?natural and nodes = "[] :: nat ParsedNode list",
     THEN conjunct1]
  have "parseHumanTime ?strict ?natural ''13:30'' = Some 810"
    by (subst t) (simp add: humanTimeFormats_def)
  moreover have "parseHumanTime ?strict ?natural ''tomorrow'' = Some 1440"
    by (subst t) (simp add: humanTimeFormats_def)
  moreover have "parseHumanTime ?strict ?natural ''13:3'' = None"
    by (subst t) (simp add: humanTimeFormats_def)
  ultimately show ?thesis by blast
qed

subsection \<open>Widening\<close>

lemma addNode_set:
  assumes "addNode c arr = Inr res"
  shows "set res \<subseteq> insert c (set arr)"
  using assms
  by (auto simp: addNode_def Let_def split: if_splits sum.splits option.splits)

lemma getSubstitution_plain:
  "CHR ''$'' \<notin> set repl \<Longrightarrow> getSubstitution matched preceding following repl = repl"
  by (induction matched preceding following repl rule: getSubstitution.induct) auto

lemma indexOf_first:
  "c \<notin> set pre \<Longrightarrow> indexOf (pre @ c # post) [c] = Some (length pre)"
  by (induction pre) auto

lemma replaceStr_splice:
  assumes "c \<notin> set pre" and "CHR ''$'' \<notin> set repl"
  shows "replaceStr (pre @ c # post) [c] repl = pre @ repl @ post"
  using assms by (simp add: replaceStr_def indexOf_first getSubstitution_plain)

lemma extendMatches_filter:
  "extendMatches clock node gp ms reg =
     extendMatches clock node gp (filter (\<lambda>m. fst m = index node) ms) reg"
  by (induction ms arbitrary: reg) (auto split: sum.splits)

lemma extendMatches_set:
  assumes "extendMatches clock node gp ms reg = Inr reg'" and "n \<in> set (snd reg')"
  shows "n \<in> set (snd reg) \<or>
         (\<exists>m \<in> set ms. fst m = index node \<and> (\<exists>t. n = extensionNode t gp node m))"
  using assms
proof (induction ms arbitrary: reg)
  case Nil
  then show ?case by simp
next
  case (Cons m ms)
  show ?case
  proof (cases "index node = fst m")
    case False
    with Cons.prems have "extendMatches clock node gp ms reg = Inr reg'" by simp
    from Cons.IH [OF this Cons.prems(2)] show ?thesis by auto
  next
    case True
    with Cons.prems(1) obtain ns where
      a: "addNode (extensionNode (clock (fst reg)) gp node m) (snd reg) = Inr ns" and
      r: "extendMatches clock node gp ms (Suc (fst reg), ns) = Inr reg'"
      by (auto split: sum.splits)
    from Cons.IH [OF r Cons.prems(2)] addNode_set [OF a] True show ?thesis
      by auto
  qed
qed

lemma execAll_text:
  assumes "(k, t) \<in> set (fst (execAll r k0 s))"
  shows "k0 \<le> k \<and> t = take (length t) (drop (k - k0) s)"
  using assms
proof (induction r k0 s rule: execAll.induct)
  case (1 r k0 s)
  show ?case
  proof (cases "matchAt r s")
    case None
    show ?thesis
    proof (cases s)
      case Nil
      with None "1.prems" show ?thesis by (simp add: execAll.simps)
    next
      case (Cons x s')
      with None "1.prems" have "(k, t) \<in> set (fst (execAll r (Suc k0) s'))"
        by (simp add: execAll.simps)
      from "1.IH"(1) [OF None Cons this]
      have "Suc k0 \<le> k" "t = take (length t) (drop (k - Suc k0) s')" by simp_all
      moreover from \<open>Suc k0 \<le> k\<close> have "k - k0 = Suc (k - Suc k0)" by simp
      ultimately show ?thesis using Cons by simp
    qed
  next
    case (Some n)
    show ?thesis
    proof (cases "n = 0")
      case True
      with Some "1.prems" show ?thesis by (simp add: execAll.simps)
    next
      case False
      obtain ms loops where e: "execAll r (k0 + n) (drop n s) = (ms, loops)"
        by (cases "execAll r (k0 + n) (drop n s)")
      from Some have nle: "n \<le> length s"
        by (auto simp: matchAt_def split: list.splits)
      from Some False e "1.prems" have "(k, t) = (k0, take n s) \<or> (k, t) \<in> set ms"
        by (simp add: execAll.simps [of r k0 s])
      then show ?thesis
      proof
        assume "(k, t) = (k0, take n s)"
        with nle show ?thesis by (simp add: min_absorb2)
      next
        assume "(k, t) \<in> set ms"
        with e have "(k, t) \<in> set (fst (execAll r (k0 + n) (drop n s)))" by simp
        from "1.IH"(2) [OF Some False this]
        have le: "k0 + n \<le> k" and t: "t = take (length t) (drop (k - (k0 + n)) (drop n s))"
          by blast+
        from le have "n + (k - (k0 + n)) = k - k0" by simp
        with t have "t = take (length t) (drop (k - k0) s)" by (simp only: drop_drop add.commute)
        with le show ?thesis by simp
      qed
    qed
  qed
qed

lemma globalMatches_text:
  assumes "globalMatches p src = Inr (ms, loops)" and "m \<in> set ms"
  shows "snd m = take (length (snd m)) (drop (fst m) src)"
proof -
  from assms(1) obtain r where "execAll r 0 src = (ms, loops)"
    by (auto simp: globalMatches_def split: option.splits)
  with assms(2) have "(fst m, snd m) \<in> set (fst (execAll r 0 src))" by simp
  from execAll_text [OF this] show ?thesis by simp
qed

lemma match_at_marker:
  assumes "globalMatches p src = Inr (ms, loops)" and "m \<in> set ms"
    and "charAt src (fst m) = ''?''" and "snd m \<noteq> []"
  shows "\<exists>post. snd m = ''?'' @ post"
proof -
  from assms(3) have i: "fst m < length src" and c: "src ! fst m = CHR ''?''"
    by (auto simp: charAt_def split: if_splits)
  from globalMatches_text [OF assms(1,2)] have t: "snd m = take (length (snd m)) (drop (fst m) src)" .
  from i have "drop (fst m) src = src ! fst m # drop (Suc (fst m)) src"
    by (simp add: Cons_nth_drop_Suc)
  with c t assms(4) show ?thesis
    by (cases "length (snd m)") (auto simp: take_Suc_Cons)
qed

text \<open>
  Claim C9. In the loop over the matches of an extension pattern for the entry
  \<open>node\<close>, a match that does not start at \<open>node.index\<close> is skipped; every entry the
  loop adds to the registry is built from a match that starts there; such a match is
  handed to \<open>addNode\<close> as an entry that is fresh and an extension, so that it is
  compared by its \<open>extendedText\<close>; and the \<open>extendedText\<close> is the matched text with
  its first \<open>?\<close> replaced by \<open>node.originalText\<close>, which for an original text
  without \<open>$\<close> is that text put in the place of the \<open>?\<close>. For an entry that sits
  at a marker, a match that starts at its \<open>index\<close> starts with that marker, and the
  \<open>extendedText\<close> is the original text followed by the rest of the match.
\<close>

theorem extendMatches_at_the_placeholder:
  "extendMatches clock node gp ms reg =
     extendMatches clock node gp (filter (\<lambda>m. fst m = index node) ms) reg \<and>
   (extendMatches clock node gp ms reg = Inr reg' \<longrightarrow>
      (\<forall>n \<in> set (snd reg').
         n \<in> set (snd reg) \<or>
         (\<exists>m \<in> set ms. fst m = index node \<and> (\<exists>t. n = extensionNode t gp node m)))) \<and>
   (fst m = index node \<longrightarrow>
      extendMatches clock node gp (m # ms) reg =
        (case addNode (extensionNode (clock (fst reg)) gp node m) (snd reg) of
           Inl e \<Rightarrow> Inl e
         | Inr parsedNodes \<Rightarrow> extendMatches clock node gp ms (Suc (fst reg), parsedNodes))) \<and>
   extendedText (extensionNode t gp node m) = Some (replaceStr (snd m) ''?'' (originalText node)) \<and>
   nodeText (extensionNode t gp node m) = extendedText (extensionNode t gp node m) \<and>
   (CHR ''?'' \<notin> set pre \<and> CHR ''$'' \<notin> set (originalText node) \<longrightarrow>
      replaceStr (pre @ ''?'' @ post) ''?'' (originalText node) = pre @ originalText node @ post) \<and>
   (globalMatches (source gp) src = Inr (ms, loops) \<and> m \<in> set ms \<and> fst m = index node \<and>
    charAt src (index node) = ''?'' \<and> snd m \<noteq> [] \<and> CHR ''$'' \<notin> set (originalText node) \<longrightarrow>
      (\<exists>rest. snd m = ''?'' @ rest \<and>
         extendedText (extensionNode t gp node m) = Some (originalText node @ rest)))"
proof -
  have "globalMatches (source gp) src = Inr (ms, loops) \<and> m \<in> set ms \<and> fst m = index node \<and>
    charAt src (index node) = ''?'' \<and> snd m \<noteq> [] \<and> CHR ''$'' \<notin> set (originalText node) \<longrightarrow>
      (\<exists>rest. snd m = ''?'' @ rest \<and>
         extendedText (extensionNode t gp node m) = Some (originalText node @ rest))"
  proof (intro impI, elim conjE)
    assume g: "globalMatches (source gp) src = Inr (ms, loops)" and m: "m \<in> set ms"
      and i: "fst m = index node" and c: "charAt src (index node) = ''?''"
      and ne: "snd m \<noteq> []" and d: "CHR ''$'' \<notin> set (originalText node)"
    from c i have "charAt src (fst m) = ''?''" by simp
    from match_at_marker [OF g m this ne] obtain rest where r: "snd m = ''?'' @ rest" by blast
    from replaceStr_splice [of "CHR ''?''" "[]" "originalText node" rest] d
    have "replaceStr (''?'' @ rest) ''?'' (originalText node) = originalText node @ rest"
      by simp
    with r show "\<exists>rest. snd m = ''?'' @ rest \<and>
         extendedText (extensionNode t gp node m) = Some (originalText node @ rest)"
      by (simp add: extensionNode_def)
  qed
  moreover have "extendMatches clock node gp ms reg = Inr reg' \<longrightarrow>
      (\<forall>n \<in> set (snd reg').
         n \<in> set (snd reg) \<or>
         (\<exists>m \<in> set ms. fst m = index node \<and> (\<exists>t. n = extensionNode t gp node m)))"
    using extendMatches_set by blast
  moreover have "CHR ''?'' \<notin> set pre \<and> CHR ''$'' \<notin> set (originalText node) \<longrightarrow>
      replaceStr (pre @ ''?'' @ post) ''?'' (originalText node) = pre @ originalText node @ post"
    using replaceStr_splice [of "CHR ''?''" pre "originalText node" post] by simp
  moreover have "extendMatches clock node gp ms reg =
     extendMatches clock node gp (filter (\<lambda>m. fst m = index node) ms) reg"
    by (rule extendMatches_filter)
  ultimately show ?thesis
    by (simp add: extensionNode_def nodeText_def)
qed

theorem extendMatches_at_the_placeholder_witness:
  "extendMatches (\<lambda>k. k) heldTime (extensionPattern (humanTimeFormatRegex ! 2) heldTime)
     [(0, ''? on 21/03''), (11, ''? on 22/04'')] (2, [heldTime]) = Inr (3, [widened]) \<and>
   extendedText widened = Some ''13:30 on 21/03''"
proof -
  let ?gp = "extensionPattern (humanTimeFormatRegex ! 2) heldTime"
  note t = extendMatches_at_the_placeholder
    [where clock = "\<lambda>k. k" and node = heldTime and gp = ?gp
       and ms = "[(0, ''? on 21/03''), (11, ''? on 22/04'')]" and reg = "(2, [heldTime])"
       and m = "(0, ''? on 21/03'')" and t = 2 and pre = "[]" and post = "'' on 21/03''"]
  note c1 = t [THEN conjunct1]
  note c4 = t [THEN conjunct2, THEN conjunct2, THEN conjunct2, THEN conjunct1]
  note c6 = t [THEN conjunct2, THEN conjunct2, THEN conjunct2, THEN conjunct2, THEN conjunct2,
    THEN conjunct1]
  have i: "index heldTime = 0" and o: "originalText heldTime = ''13:30''"
    by (simp_all add: heldTime_def freshNode_def)
  have "replaceStr ([] @ ''?'' @ '' on 21/03'') ''?'' (originalText heldTime) =
      [] @ originalText heldTime @ '' on 21/03''"
    by (rule c6 [rule_format]) (simp add: o)
  then have "replaceStr ''? on 21/03'' ''?'' ''13:30'' = ''13:30 on 21/03''"
    by (simp only: o append.simps)
  with c4 have x: "extendedText widened = Some ''13:30 on 21/03''"
    by (simp only: widened_def o snd_conv)
  have a: "addNode widened [heldTime] = Inr [widened]"
    by (simp add: addNode_def getIntersectingNodes_def nodeText_def keepNode_def
        widened_def extensionNode_def heldTime_def freshNode_def replaceStr_def)
  have "extendMatches (\<lambda>k. k) heldTime ?gp
      [(0, ''? on 21/03''), (11, ''? on 22/04'')] (2, [heldTime]) =
    extendMatches (\<lambda>k. k) heldTime ?gp
      (filter (\<lambda>m. fst m = index heldTime) [(0, ''? on 21/03''), (11, ''? on 22/04'')])
      (2, [heldTime])"
    by (rule c1)
  also have "\<dots> = Inr (3, [widened])"
    using a by (simp add: i widened_def [symmetric])
  finally show ?thesis using x by blast
qed





subsection \<open>Overlapping entries\<close>

text \<open>
  Claim C1 at the text \<open>2024-03-21 13:30 21/03/2024\<close>. The scan adds
  \<open>2024-03-21 13:30\<close> at 0; the candidate \<open>13:30 21/03/2024\<close> at 11 is as long,
  so it is not discarded, and the entry at 0 starts before it, so it is not removed.
  The registry then holds both, their ranges share the offsets 11 to 15, and the
  segments built from it repeat \<open>13:30\<close>.
\<close>

theorem overlapping_spans_after_scan:
  "findTimesInOriginalSource (\<lambda>k. k) ''2024-03-21 13:30 21/03/2024'' (0, []) =
     Inr (7, [freshNode 0 (humanTimeFormatRegex ! 0) (0, ''2024-03-21 13:30'') :: unit ParsedNode,
              freshNode 1 (humanTimeFormatRegex ! 3) (11, ''13:30 21/03/2024'')]) \<and>
   rangesOverlap
     (freshNode 0 (humanTimeFormatRegex ! 0) (0, ''2024-03-21 13:30'') :: unit ParsedNode)
     (freshNode 1 (humanTimeFormatRegex ! 3) (11, ''13:30 21/03/2024'')) \<and>
   map_sum id fst
     (matchWholeString (\<lambda>k. k) ''2024-03-21 13:30 21/03/2024'' ((0, []) :: unit registry)) =
     Inr (Some [\<lparr>sIndex = 0, sText = ''2024-03-21 13:30'',
                 actualText = Some ''2024-03-21 13:30'', sType = ''prepValidTime'',
                 sId = Some 0\<rparr>,
                \<lparr>sIndex = 11, sText = ''13:30 21/03/2024'',
                 actualText = Some ''13:30 21/03/2024'', sType = ''prepValidTime'',
                 sId = Some 1\<rparr>,
                \<lparr>sIndex = 16, sText = ''13:30'', actualText = None,
                 sType = ''prepText'', sId = Some (- 1)\<rparr>])"
  by code_simp

subsection \<open>Running a pass twice\<close>

text \<open>
  Nothing in a pass reads the \<open>id\<close> of an entry, so two runs that start from
  registries equal up to the ids stay equal up to the ids.
\<close>

lemma withoutId_fields [simp]:
  "index (withoutId n) = index n" "originalText (withoutId n) = originalText n"
  "fresh (withoutId n) = fresh n" "nodeText (withoutId n) = nodeText n"
  by (simp_all add: withoutId_def nodeText_def)
































end
